theory Spec2Isabelle
  imports Complex_Main
begin

section \<open>Errors and tensors\<close>

text \<open>
  Exceptions of the Python program are values: a call returns \<open>Inl e\<close> where the
  program raises \<open>e\<close>, and \<open>Inr v\<close> where it returns \<open>v\<close>.
\<close>

datatype error = TypeError | ValueError | RuntimeError | IndexError | LoadError

definition bind_r :: "error + 'a \<Rightarrow> ('a \<Rightarrow> error + 'b) \<Rightarrow> error + 'b" where
  "bind_r m f = (case m of Inl e \<Rightarrow> Inl e | Inr v \<Rightarrow> f v)"

text \<open>
  A tensor is its shape and its elements in row-major order. Element arithmetic is over
  the reals: rounding of the floating-point numbers of the library is not part of the model.
\<close>

record tensor =
  shape :: "nat list"
  data :: "real list"

definition numel :: "tensor \<Rightarrow> nat" where
  "numel t = prod_list (shape t)"

definition wf_tensor :: "tensor \<Rightarrow> bool" where
  "wf_tensor t = (length (data t) = prod_list (shape t))"

section \<open>Layers of the library\<close>

text \<open>
  The layer objects of \<open>torch.nn\<close> that the program builds, as descriptions. Channel
  counts, kernel sizes and strides are natural numbers: the docstrings call them numbers of
  channels and sizes, and the layer constructors of the library reject negative ones.
  \<open>Conv2d\<close> carries its padding, which the program never passes: \<open>nn_Conv2d\<close> is the
  call \<open>nn.Conv2d(in, out, kernel_size, stride=stride)\<close> with the padding left at the
  library's default 0 (dilation and groups stay at their default 1 and are not carried).
\<close>

datatype layer =
    Conv2d (conv_in: nat) (conv_out_channels: nat) (conv_kernel: nat) (conv_stride: nat)
      (conv_padding: nat)
  | BatchNorm2d nat
  | LeakyReLU real bool
  | Sequential "layer list"

definition nn_Conv2d :: "nat \<Rightarrow> nat \<Rightarrow> nat \<Rightarrow> nat \<Rightarrow> layer" where
  "nn_Conv2d input_channels output_channels kernel_size stride =
     Conv2d input_channels output_channels kernel_size stride 0"

section \<open>The discriminator\<close>

text \<open>
  \<open>make_disc_block(self, input_channels, output_channels, kernel_size=4, stride=2)\<close>:
  an argument left out is \<open>None\<close> and takes the default of the signature.
\<close>

definition make_disc_block :: "nat \<Rightarrow> nat \<Rightarrow> nat option \<Rightarrow> nat option \<Rightarrow> layer" where
  "make_disc_block input_channels output_channels kernel_size_arg stride_arg =
     (let kernel_size = (case kernel_size_arg of None \<Rightarrow> 4 | Some v \<Rightarrow> v);
          stride = (case stride_arg of None \<Rightarrow> 2 | Some v \<Rightarrow> v)
      in Sequential
           [nn_Conv2d input_channels output_channels kernel_size stride,
            BatchNorm2d output_channels,
            LeakyReLU (2 / 10) True])"

text \<open>
  The module object: its \<open>model\<close> attribute and the \<open>training\<close> flag every module of the
  library carries, which a new module has set.
\<close>

record discriminator =
  model :: layer
  training :: bool

text \<open>\<open>Discriminator.__init__(self, img_chan=1, hidden_dim=16)\<close>.\<close>

definition Discriminator :: "nat option \<Rightarrow> nat option \<Rightarrow> discriminator" where
  "Discriminator img_chan_arg hidden_dim_arg =
     (let img_chan = (case img_chan_arg of None \<Rightarrow> 1 | Some v \<Rightarrow> v);
          hidden_dim = (case hidden_dim_arg of None \<Rightarrow> 16 | Some v \<Rightarrow> v)
      in \<lparr>model = Sequential
            [make_disc_block img_chan hidden_dim (Some 4) (Some 2),
             make_disc_block hidden_dim (hidden_dim * 2) (Some 4) (Some 2),
             nn_Conv2d (hidden_dim * 2) 1 4 2],
          training = True\<rparr>)"

text \<open>The convolutions of a module, in the order in which the module applies them.\<close>

fun convs :: "layer \<Rightarrow> layer list"
  and convs_list :: "layer list \<Rightarrow> layer list" where
  "convs (Conv2d i c k s p) = [Conv2d i c k s p]"
| "convs (BatchNorm2d n) = []"
| "convs (LeakyReLU a b) = []"
| "convs (Sequential ls) = convs_list ls"
| "convs_list [] = []"
| "convs_list (l # ls) = convs l @ convs_list ls"

section \<open>Shapes\<close>

text \<open>
  The output size of a convolution along one spatial dimension, as the library documents
  it for dilation 1: \<open>floor((size + 2 * padding - kernel_size) / stride) + 1\<close>. The library
  raises where the kernel is larger than the padded input, and for a stride of 0.
\<close>

definition conv_out :: "nat \<Rightarrow> nat \<Rightarrow> nat \<Rightarrow> nat \<Rightarrow> nat option" where
  "conv_out sz k s p =
     (if s = 0 \<or> k = 0 \<or> sz + 2 * p < k then None
      else Some ((sz + 2 * p - k) div s + 1))"

text \<open>
  The shape a primitive layer gives its output, or the error it raises.
  \<^item> \<open>Conv2d\<close> takes a batch \<open>(N, C, H, W)\<close> or one image \<open>(C, H, W)\<close> whose \<open>C\<close> is its
    \<open>in_channels\<close>. Without output channels it raises; without input channels its
    output has no channels.
  \<^item> \<open>BatchNorm2d\<close> takes 4-dimensional input only. In training mode it first raises
    when a channel holds a single value. An input without elements is returned as it is,
    its channels unchecked (the library scales it by the first weight, which a layer
    without features does not have); any other input must have \<open>num_features\<close> channels.
  \<^item> \<open>LeakyReLU\<close> works elementwise on any shape.
  A container has no rule of its own: \<open>run\<close> below descends into it.
\<close>

fun out_shape :: "bool \<Rightarrow> layer \<Rightarrow> nat list \<Rightarrow> error + nat list" where
  "out_shape tr (Conv2d i c k s p) [n, ch, h, w] =
     (if c = 0 \<or> ch \<noteq> i then Inl RuntimeError
      else (case (conv_out h k s p, conv_out w k s p) of
              (Some h', Some w') \<Rightarrow> Inr [n, if i = 0 then 0 else c, h', w']
            | _ \<Rightarrow> Inl RuntimeError))"
| "out_shape tr (Conv2d i c k s p) [ch, h, w] =
     (if c = 0 \<or> ch \<noteq> i then Inl RuntimeError
      else (case (conv_out h k s p, conv_out w k s p) of
              (Some h', Some w') \<Rightarrow> Inr [if i = 0 then 0 else c, h', w']
            | _ \<Rightarrow> Inl RuntimeError))"
| "out_shape tr (Conv2d i c k s p) sh = Inl RuntimeError"
| "out_shape tr (BatchNorm2d nf) [n, ch, h, w] =
     (if tr \<and> n * h * w = 1 then Inl ValueError
      else if n * ch * h * w = 0 then (if nf = 0 then Inl IndexError else Inr [n, ch, h, w])
      else if ch \<noteq> nf then Inl RuntimeError
      else Inr [n, ch, h, w])"
| "out_shape tr (BatchNorm2d nf) sh = Inl ValueError"
| "out_shape tr (LeakyReLU a b) sh = Inr sh"
| "out_shape tr (Sequential ls) sh = Inl TypeError"

text \<open>
  The elements a layer with weights computes are the library's: \<open>K p l x\<close> is the
  element list that the convolution or batch normalization \<open>l\<close> at position \<open>p\<close> of
  the module tree, with the weights and statistics it holds, computes from \<open>x\<close>. The
  program fixes none of it, so \<open>K\<close> is a parameter. \<open>LeakyReLU\<close> has no weights: it
  keeps a positive element and multiplies any other by its negative slope.
\<close>

type_synonym kernels = "nat list \<Rightarrow> layer \<Rightarrow> tensor \<Rightarrow> real list"

fun layer_data :: "kernels \<Rightarrow> nat list \<Rightarrow> layer \<Rightarrow> tensor \<Rightarrow> real list" where
  "layer_data K p (LeakyReLU a b) x = map (\<lambda>v. if 0 < v then v else a * v) (data x)"
| "layer_data K p l x = K p l x"

definition apply_layer :: "kernels \<Rightarrow> bool \<Rightarrow> nat list \<Rightarrow> layer \<Rightarrow> tensor \<Rightarrow> error + tensor" where
  "apply_layer K tr p l x =
     (case out_shape tr l (shape x) of
        Inl e \<Rightarrow> Inl e
      | Inr s \<Rightarrow> Inr \<lparr>shape = s, data = layer_data K p l x\<rparr>)"

text \<open>
  One instance of the parameter, for concrete runs: layers whose weights are all zero, so
  that every element they compute is 0.
\<close>

definition zero_kernels :: kernels where
  "zero_kernels p l x =
     (case out_shape False l (shape x) of
        Inl e \<Rightarrow> []
      | Inr s \<Rightarrow> replicate (prod_list s) 0)"

text \<open>
  Calling a module. \<open>nn.Sequential\<close> feeds the output of each child to the next; the child
  at index \<open>i\<close> of the module at position \<open>p\<close> is at position \<open>p @ [i]\<close>.
\<close>

fun run :: "kernels \<Rightarrow> bool \<Rightarrow> nat list \<Rightarrow> layer \<Rightarrow> tensor \<Rightarrow> error + tensor"
  and run_seq :: "kernels \<Rightarrow> bool \<Rightarrow> nat list \<Rightarrow> nat \<Rightarrow> layer list \<Rightarrow> tensor \<Rightarrow> error + tensor" where
  "run K tr p (Sequential ls) x = run_seq K tr p 0 ls x"
| "run K tr p (Conv2d i c k s pd) x = apply_layer K tr p (Conv2d i c k s pd) x"
| "run K tr p (BatchNorm2d nf) x = apply_layer K tr p (BatchNorm2d nf) x"
| "run K tr p (LeakyReLU a b) x = apply_layer K tr p (LeakyReLU a b) x"
| "run_seq K tr p i [] x = Inr x"
| "run_seq K tr p i (l # ls) x =
     (case run K tr (p @ [i]) l x of
        Inl e \<Rightarrow> Inl e
      | Inr y \<Rightarrow> run_seq K tr p (Suc i) ls y)"

text \<open>
  \<open>len(t)\<close> is the size of the first dimension and raises on a tensor without one.
\<close>

definition len_t :: "tensor \<Rightarrow> error + nat" where
  "len_t t = (case shape t of [] \<Rightarrow> Inl TypeError | n # rest \<Rightarrow> Inr n)"

text \<open>
  \<open>t.view(sizes)\<close> keeps the elements and their order and replaces the shape. At most
  one size may be \<open>-1\<close>; it is inferred from the number of elements, which the library
  refuses when the other sizes multiply to 0 (any value would do) or do not divide the
  number of elements. Without a \<open>-1\<close> the sizes must multiply to the number of elements.
\<close>

definition view :: "tensor \<Rightarrow> int list \<Rightarrow> error + tensor" where
  "view t sizes =
     (let known = prod_list (map nat (filter (\<lambda>d. d \<noteq> - 1) sizes)) in
      if list_ex (\<lambda>d. d < - 1) sizes \<or> 1 < count_list sizes (- 1) then Inl RuntimeError
      else if list_ex (\<lambda>d. d = - 1) sizes then
        (if 0 < known \<and> numel t mod known = 0
         then Inr \<lparr>shape = map (\<lambda>d. if d = - 1 then numel t div known else nat d) sizes,
                   data = data t\<rparr>
         else Inl RuntimeError)
      else if known = numel t then Inr \<lparr>shape = map nat sizes, data = data t\<rparr>
      else Inl RuntimeError)"

text \<open>\<open>Discriminator.forward(self, x)\<close>.\<close>

definition forward :: "kernels \<Rightarrow> discriminator \<Rightarrow> tensor \<Rightarrow> error + tensor" where
  "forward K self x =
     bind_r (run K (training self) [] (model self) x) (\<lambda>predictions.
     bind_r (len_t predictions) (\<lambda>n.
       view predictions [int n, - 1]))"

text \<open>
  The elements of sample \<open>i\<close> of a tensor whose first dimension counts the samples.
\<close>

definition sample :: "tensor \<Rightarrow> nat \<Rightarrow> real list" where
  "sample t i =
     take (prod_list (tl (shape t))) (drop (i * prod_list (tl (shape t))) (data t))"




section \<open>The data loader\<close>

text \<open>
  The transforms of \<open>torchvision.transforms\<close> that the program builds, as descriptions.
\<close>

datatype transform = Normalize "real list" "real list" | Compose "transform list"

text \<open>
  \<open>Normalize(mean, std)\<close> on a tensor image \<open>(..., C, H, W)\<close>: the library raises on fewer
  than three dimensions and on a zero in \<open>std\<close>, views \<open>mean\<close> and \<open>std\<close> as
  \<open>(-1, 1, 1)\<close> and subtracts and divides in place on a copy, so each of them must have
  one entry or \<open>C\<close> entries. The element at flat index \<open>i\<close> is in channel
  \<open>(i div (H * W)) mod C\<close>.
\<close>

definition channel_of :: "nat list \<Rightarrow> nat \<Rightarrow> nat" where
  "channel_of sh i =
     (i div (sh ! (length sh - 2) * sh ! (length sh - 1))) mod (sh ! (length sh - 3))"

definition per_channel :: "real list \<Rightarrow> nat \<Rightarrow> real" where
  "per_channel vs c = (if length vs = 1 then vs ! 0 else vs ! c)"

definition normalize :: "tensor \<Rightarrow> real list \<Rightarrow> real list \<Rightarrow> error + tensor" where
  "normalize t mean std =
     (if length (shape t) < 3 then Inl ValueError
      else if list_ex (\<lambda>s. s = 0) std then Inl ValueError
      else if length mean \<noteq> 1 \<and> length mean \<noteq> shape t ! (length (shape t) - 3)
        then Inl RuntimeError
      else if length std \<noteq> 1 \<and> length std \<noteq> shape t ! (length (shape t) - 3)
        then Inl RuntimeError
      else Inr \<lparr>shape = shape t,
                data = map (\<lambda>(i, v). (v - per_channel mean (channel_of (shape t) i))
                                      / per_channel std (channel_of (shape t) i))
                         (enumerate 0 (data t))\<rparr>)"

fun apply_transform :: "transform \<Rightarrow> tensor \<Rightarrow> error + tensor"
  and apply_transforms :: "transform list \<Rightarrow> tensor \<Rightarrow> error + tensor" where
  "apply_transform (Normalize mean std) t = normalize t mean std"
| "apply_transform (Compose fs) t = apply_transforms fs t"
| "apply_transforms [] t = Inr t"
| "apply_transforms (f # fs) t =
     (case apply_transform f t of Inl e \<Rightarrow> Inl e | Inr t' \<Rightarrow> apply_transforms fs t')"

text \<open>
  Modelled from the spec: the class \<open>TechnoDatasetSpectrogram\<close> of
  \<open>electro_modelling/datasets/techno_dataset.py\<close>, which is not among the sources. The
  spec has the loader wrap "a pickle-based tensor cache with a normalization transform":
  the dataset holds the tensors and the transform it was built with, has one item for each
  tensor, and item \<open>i\<close> is the transform applied to tensor \<open>i\<close>.
\<close>

record dataset =
  ds_tensors :: "tensor list"
  ds_transform :: transform

text \<open>
  Modelled from the spec: the constructor \<open>TechnoDatasetSpectrogram(tensors, transform)\<close>,
  not among the sources, keeps its two arguments.
\<close>

definition TechnoDatasetSpectrogram :: "tensor list \<Rightarrow> transform \<Rightarrow> dataset" where
  "TechnoDatasetSpectrogram tensors transform =
     \<lparr>ds_tensors = tensors, ds_transform = transform\<rparr>"

text \<open>
  Modelled from the spec: \<open>len(dataset)\<close>, not among the sources, is the number of wrapped
  tensors.
\<close>

definition dataset_len :: "dataset \<Rightarrow> nat" where
  "dataset_len ds = length (ds_tensors ds)"


text \<open>
  \<open>DataLoader(dataset, batch_size=batch_size, shuffle=shuffle)\<close> of the library, with its
  other arguments at their defaults. With \<open>shuffle\<close> set it builds a random sampler, which
  raises on a dataset without items; its batch sampler raises on a batch size that is not
  positive.
\<close>

record dataloader =
  dl_dataset :: dataset
  dl_batch_size :: int
  dl_shuffle :: bool

definition DataLoader :: "dataset \<Rightarrow> int \<Rightarrow> bool \<Rightarrow> error + dataloader" where
  "DataLoader ds batch_size shuffle =
     (if shuffle \<and> dataset_len ds = 0 then Inl ValueError
      else if batch_size \<le> 0 then Inl ValueError
      else Inr \<lparr>dl_dataset = ds, dl_batch_size = batch_size, dl_shuffle = shuffle\<rparr>)"


function batch_sampler :: "nat \<Rightarrow> 'a list \<Rightarrow> 'a list list" where
  "batch_sampler n xs =
     (if n = 0 \<or> xs = [] then [] else take n xs # batch_sampler n (drop n xs))"
  by pat_completeness auto
termination
  by (relation "measure (\<lambda>(n, xs). length xs)") auto

declare batch_sampler.simps [simp del]





text \<open>
  \<open>techno_data_loader(batch_size, data_dir)\<close>. The helper \<open>load_pickle\<close> of
  \<open>electro_modelling/helpers/utils.py\<close> is not among the sources and reads the file
  system: it is the parameter \<open>load_pickle\<close>, which gives the tensors pickled at a path
  or raises.
\<close>

definition techno_data_loader ::
  "(string \<Rightarrow> error + tensor list) \<Rightarrow> int \<Rightarrow> string \<Rightarrow> error + dataloader" where
  "techno_data_loader load_pickle batch_size data_dir =
     (let transform = Compose [Normalize [- 376 / 100, 0] [1005 / 100, 1]] in
      bind_r (load_pickle data_dir) (\<lambda>tensors.
        let train_set = TechnoDatasetSpectrogram tensors transform in
        DataLoader train_set batch_size True))"


section \<open>Concrete inputs\<close>

text \<open>
  A file system that holds one pickle, and a two-channel image of height 1 and width 2:
  its first channel holds 0 and 1, its second 2 and 3.
\<close>

definition pickle_at :: "string \<Rightarrow> tensor list \<Rightarrow> string \<Rightarrow> error + tensor list" where
  "pickle_at path tensors data_dir = (if data_dir = path then Inr tensors else Inl LoadError)"

definition example_image :: tensor where
  "example_image = \<lparr>shape = [2, 1, 2], data = [0, 1, 2, 3]\<rparr>"

section \<open>Shapes through the discriminator\<close>

lemma bind_r_simps [simp]:
  "bind_r (Inl e) f = Inl e" "bind_r (Inr v) f = f v"
  by (simp_all add: bind_r_def)

lemma conv_out_4_2: "conv_out sz 4 2 0 = (if sz < 4 then None else Some ((sz - 4) div 2 + 1))"
  by (simp add: conv_out_def)

lemma conv_shape_4_2:
  assumes "0 < i" "0 < c"
  shows "out_shape tr (Conv2d i c 4 2 0) sh = Inr sh' \<longleftrightarrow>
     (\<exists>n h w. sh = [n, i, h, w] \<and> 4 \<le> h \<and> 4 \<le> w \<and>
        sh' = [n, c, (h - 4) div 2 + 1, (w - 4) div 2 + 1]) \<or>
     (\<exists>h w. sh = [i, h, w] \<and> 4 \<le> h \<and> 4 \<le> w \<and>
        sh' = [c, (h - 4) div 2 + 1, (w - 4) div 2 + 1])"
  using assms
  by (cases "(tr, Conv2d i c 4 2 0, sh)" rule: out_shape.cases)
     (auto simp: conv_out_4_2 split: if_splits)

lemma bn_shape:
  assumes "0 < nf"
  shows "out_shape tr (BatchNorm2d nf) sh = Inr sh' \<longleftrightarrow>
     (\<exists>n ch h w. sh = [n, ch, h, w] \<and> \<not> (tr \<and> n * h * w = 1)
        \<and> (n * ch * h * w = 0 \<or> ch = nf) \<and> sh' = sh)"
  using assms
  by (cases "(tr, BatchNorm2d nf, sh)" rule: out_shape.cases)
     (auto split: if_splits)

lemma apply_layer_Inr:
  "apply_layer K tr p l x = Inr y \<longleftrightarrow>
     (\<exists>s. out_shape tr l (shape x) = Inr s \<and> y = \<lparr>shape = s, data = layer_data K p l x\<rparr>)"
  by (auto simp: apply_layer_def split: sum.splits)

lemma block_shape:
  assumes "run K tr p (make_disc_block i c (Some 4) (Some 2)) x = Inr y" "0 < i" "0 < c"
  shows "\<exists>n h w. shape x = [n, i, h, w] \<and> 4 \<le> h \<and> 4 \<le> w \<and>
           shape y = [n, c, (h - 4) div 2 + 1, (w - 4) div 2 + 1]"
  using assms
  by (auto simp: make_disc_block_def nn_Conv2d_def apply_layer_Inr conv_shape_4_2 bn_shape
      split: sum.splits)

lemma conv_shape_4_2_eq:
  assumes "0 < i" "0 < c"
  shows "out_shape tr (Conv2d i c 4 2 0) [n, i, h, w] =
     (if 4 \<le> h \<and> 4 \<le> w then Inr [n, c, (h - 4) div 2 + 1, (w - 4) div 2 + 1]
      else Inl RuntimeError)"
  using assms by (auto simp: conv_out_4_2)

lemma model_shape:
  assumes "run K tr [] (model (Discriminator (Some a) (Some b))) x = Inr p" "0 < a" "0 < b"
  shows "\<exists>n h w. shape x = [n, a, h, w] \<and> 22 \<le> h \<and> 22 \<le> w \<and>
           shape p = [n, 1, (((h - 4) div 2 + 1 - 4) div 2 + 1 - 4) div 2 + 1,
                            (((w - 4) div 2 + 1 - 4) div 2 + 1 - 4) div 2 + 1]"
proof -
  from assms(1) obtain y z where
    y: "run K tr [0] (make_disc_block a b (Some 4) (Some 2)) x = Inr y" and
    z: "run K tr [Suc 0] (make_disc_block b (b * 2) (Some 4) (Some 2)) y = Inr z" and
    p: "apply_layer K tr [Suc (Suc 0)] (Conv2d (b * 2) 1 4 2 0) z = Inr p"
    by (auto simp: Discriminator_def nn_Conv2d_def split: sum.splits)
  from assms(3) have b2: "0 < b * 2" by simp
  from block_shape [OF y assms(2,3)] obtain n h w where
    x: "shape x = [n, a, h, w]" "4 \<le> h" "4 \<le> w"
    and sy: "shape y = [n, b, (h - 4) div 2 + 1, (w - 4) div 2 + 1]" by blast
  from block_shape [OF z assms(3) b2] sy have
    h2: "4 \<le> (h - 4) div 2 + 1" "4 \<le> (w - 4) div 2 + 1"
    and sz: "shape z = [n, b * 2, ((h - 4) div 2 + 1 - 4) div 2 + 1, ((w - 4) div 2 + 1 - 4) div 2 + 1]"
    by auto
  from p obtain s where s: "out_shape tr (Conv2d (b * 2) 1 4 2 0) (shape z) = Inr s"
    and ps: "shape p = s"
    by (auto simp only: apply_layer_Inr tensor.simps)
  have one: "0 < (1::nat)" by simp
  from s [unfolded conv_shape_4_2 [OF b2 one]] sz ps have
    h3: "4 \<le> ((h - 4) div 2 + 1 - 4) div 2 + 1" "4 \<le> ((w - 4) div 2 + 1 - 4) div 2 + 1"
    and sp: "shape p = [n, 1, (((h - 4) div 2 + 1 - 4) div 2 + 1 - 4) div 2 + 1,
                            (((w - 4) div 2 + 1 - 4) div 2 + 1 - 4) div 2 + 1]"
    by auto
  from h3 have "22 \<le> h" "22 \<le> w" by linarith+
  with x sp show ?thesis by simp
qed

lemma default_args: "Discriminator None None = Discriminator (Some 1) (Some 16)"
  by (simp add: Discriminator_def)

lemma forward_Inr:
  "forward K D x = Inr y \<Longrightarrow> \<exists>p. run K (training D) [] (model D) x = Inr p"
  by (auto simp: forward_def bind_r_def split: sum.splits)

lemma view_rows:
  assumes "shape p = n # rest" "0 < n"
  shows "view p [int n, - 1] = Inr \<lparr>shape = [n, prod_list rest], data = data p\<rparr>"
  using assms by (simp add: view_def numel_def)

lemma run_22:
  assumes "shape x = [N, 1, 22, 22]"
  shows "\<exists>p. run K tr [] (model (Discriminator None None)) x = Inr p \<and> shape p = [N, 1, 1, 1]"
  using assms
  by (simp add: Discriminator_def make_disc_block_def nn_Conv2d_def apply_layer_def conv_out_def)

section \<open>The loader and its batches\<close>

lemma techno_transform:
  assumes "techno_data_loader load_pickle batch_size data_dir = Inr L"
  shows "ds_transform (dl_dataset L) = Compose [Normalize [- 376 / 100, 0] [1005 / 100, 1]]"
    and "load_pickle data_dir = Inr (ds_tensors (dl_dataset L))"
    and "dl_batch_size L = batch_size" and "dl_shuffle L"
    and "ds_tensors (dl_dataset L) \<noteq> []" and "0 < batch_size"
  using assms
  by (auto simp: techno_data_loader_def TechnoDatasetSpectrogram_def DataLoader_def
      dataset_len_def bind_r_def split: sum.splits if_splits)

lemma techno_returns:
  assumes "load_pickle data_dir = Inr tensors" "tensors \<noteq> []" "0 < batch_size"
  shows "techno_data_loader load_pickle batch_size data_dir =
    Inr \<lparr>dl_dataset = \<lparr>ds_tensors = tensors,
           ds_transform = Compose [Normalize [- 376 / 100, 0] [1005 / 100, 1]]\<rparr>,
         dl_batch_size = batch_size, dl_shuffle = True\<rparr>"
  using assms
  by (simp add: techno_data_loader_def TechnoDatasetSpectrogram_def DataLoader_def
      dataset_len_def)

lemma normalize_two_channels:
  assumes "3 \<le> length (shape t)" "shape t ! (length (shape t) - 3) = 2"
  shows "\<exists>t'. apply_transform (Compose [Normalize [- 376 / 100, 0] [1005 / 100, 1]]) t = Inr t'
    \<and> shape t' = shape t \<and> length (data t') = length (data t)
    \<and> (\<forall>i < length (data t).
          data t' ! i = (if channel_of (shape t) i = 0
                         then (data t ! i - (- 376 / 100)) / (1005 / 100)
                         else (data t ! i - 0) / 1))"
proof -
  define f where "f = (\<lambda>(i, v). (v - per_channel [- 376 / 100, 0] (channel_of (shape t) i))
                              / per_channel [1005 / 100, 1] (channel_of (shape t) i))"
  define t' where "t' = \<lparr>shape = shape t, data = map f (enumerate 0 (data t))\<rparr>"
  have ch: "channel_of (shape t) i = 0 \<or> channel_of (shape t) i = 1" for i
    using assms(2) by (simp add: channel_of_def) linarith
  have el: "f (i, v) = (if channel_of (shape t) i = 0 then (v - (- 376 / 100)) / (1005 / 100)
                        else (v - 0) / 1)" for i v
    using ch [of i] by (auto simp: per_channel_def f_def)
  have "normalize t [- 376 / 100, 0] [1005 / 100, 1] = Inr t'"
    using assms by (simp add: normalize_def t'_def f_def)
  then have run: "apply_transform (Compose [Normalize [- 376 / 100, 0] [1005 / 100, 1]]) t = Inr t'"
    by simp
  have nth: "data t' ! i = f (i, data t ! i)" if "i < length (data t)" for i
    using that by (simp add: t'_def nth_enumerate_eq)
  have "shape t' = shape t" "length (data t') = length (data t)"
    by (simp_all add: t'_def)
  with run nth el show ?thesis by metis
qed

lemma batch_sampler_Nil [simp]: "batch_sampler n [] = []" "batch_sampler 0 xs = []"
  by (simp_all add: batch_sampler.simps)








lemma default_mode:
  "(Discriminator None None)\<lparr>training := True\<rparr> = Discriminator None None"
  by (simp add: Discriminator_def)

lemma example_loader:
  "techno_data_loader (pickle_at ''techno.pkl'' [example_image]) 2 ''techno.pkl'' =
     Inr \<lparr>dl_dataset = \<lparr>ds_tensors = [example_image],
            ds_transform = Compose [Normalize [- 376 / 100, 0] [1005 / 100, 1]]\<rparr>,
          dl_batch_size = 2, dl_shuffle = True\<rparr>"
  by (simp add: techno_data_loader_def pickle_at_def TechnoDatasetSpectrogram_def
      DataLoader_def dataset_len_def)

lemma example_run:
  "run zero_kernels (training (Discriminator None None)) [] (model (Discriminator None None))
      \<lparr>shape = [2, 1, 22, 22], data = replicate 968 0\<rparr>
     = Inr \<lparr>shape = [2, 1, 1, 1], data = [0, 0]\<rparr>"
proof -
  have two: "replicate 2 (0::real) = [0, 0]"
    by (simp add: numeral_2_eq_2)
  show ?thesis
    by (simp add: Discriminator_def make_disc_block_def nn_Conv2d_def apply_layer_def
        conv_out_def zero_kernels_def two)
qed

lemma example_forward:
  "forward zero_kernels (Discriminator None None)
      \<lparr>shape = [2, 1, 22, 22], data = replicate 968 0\<rparr>
     = Inr \<lparr>shape = [2, 1], data = [0, 0]\<rparr>"
  unfolding forward_def example_run
  by (simp add: len_t_def view_def numel_def)

section \<open>The claims\<close>

text \<open>
  Claim C1, as the code has it. When the model accepts \<open>x\<close> and its output holds at
  least one sample (\<open>len(predictions)\<close> is positive), \<open>forward(x)\<close> returns that output
  with a two-dimensional shape: the first dimension is \<open>len(predictions)\<close>, the second the
  number of remaining elements of a sample. The elements and their order are those of the
  output, and each sample's elements are its row.
\<close>

theorem forward_flattens_samples:
  assumes "run K (training D) [] (model D) x = Inr predictions"
    and "len_t predictions = Inr n" and "0 < n"
  shows "\<exists>out. forward K D x = Inr out
    \<and> shape out = [n, prod_list (tl (shape predictions))]
    \<and> data out = data predictions
    \<and> (\<forall>i. sample out i = sample predictions i)"
proof -
  from assms(2) obtain rest where sh: "shape predictions = n # rest"
    by (auto simp: len_t_def split: list.splits)
  have "forward K D x = Inr \<lparr>shape = [n, prod_list rest], data = data predictions\<rparr>"
    using assms sh by (simp add: forward_def view_rows)
  with sh show ?thesis by (simp add: sample_def)
qed

theorem forward_flattens_samples_witness:
  "run zero_kernels (training (Discriminator None None)) [] (model (Discriminator None None))
      \<lparr>shape = [2, 1, 22, 22], data = replicate 968 0\<rparr>
     = Inr \<lparr>shape = [2, 1, 1, 1], data = [0, 0]\<rparr>
   \<and> len_t \<lparr>shape = [2, 1, 1, 1], data = [0, 0]\<rparr> = Inr 2
   \<and> (0::nat) < 2
   \<and> (\<exists>out. forward zero_kernels (Discriminator None None)
              \<lparr>shape = [2, 1, 22, 22], data = replicate 968 0\<rparr> = Inr out
          \<and> shape out = [2, 1] \<and> data out = [0, 0])"
proof -
  have l: "len_t \<lparr>shape = [2, 1, 1, 1], data = [0, 0]\<rparr> = Inr 2"
    by (simp add: len_t_def)
  have p: "(0::nat) < 2" by simp
  from forward_flattens_samples [OF example_run l p] example_run l show ?thesis by auto
qed

text \<open>
  The claim as stated, for every input the model accepts, fails on a batch without images:
  the stack accepts the shape \<open>(0, 1, 22, 22)\<close> and gives \<open>(0, 1, 1, 1)\<close>, on which
  \<open>view(0, -1)\<close> raises, since the size to infer is not determined.
\<close>

theorem forward_empty_batch_counterexample:
  "run zero_kernels (training (Discriminator None None)) [] (model (Discriminator None None))
      \<lparr>shape = [0, 1, 22, 22], data = []\<rparr>
     = Inr \<lparr>shape = [0, 1, 1, 1], data = []\<rparr>
   \<and> forward zero_kernels (Discriminator None None) \<lparr>shape = [0, 1, 22, 22], data = []\<rparr>
     = Inl RuntimeError"
  by (simp add: forward_def len_t_def view_def numel_def Discriminator_def make_disc_block_def
      nn_Conv2d_def apply_layer_def conv_out_def zero_kernels_def)

text \<open>
  Claim C2. The transform in the dataset of a returned loader is the same
  \<open>Normalize((-3.76, 0), (10.05, 1))\<close> whatever \<open>batch_size\<close>, \<open>data_dir\<close> and the
  loaded tensors are, and on every two-channel image it maps an element \<open>v\<close> of channel
  0 to \<open>(v - (-3.76)) / 10.05\<close> and an element of channel 1 to \<open>(v - 0) / 1\<close>.
\<close>

theorem normalization_fixed:
  "(\<forall>L. techno_data_loader load_pickle batch_size data_dir = Inr L \<longrightarrow>
        ds_transform (dl_dataset L) = Compose [Normalize [- 376 / 100, 0] [1005 / 100, 1]])
   \<and> (\<forall>t. 3 \<le> length (shape t) \<and> shape t ! (length (shape t) - 3) = 2 \<longrightarrow>
        (\<exists>t'. apply_transform (Compose [Normalize [- 376 / 100, 0] [1005 / 100, 1]]) t = Inr t'
           \<and> shape t' = shape t \<and> length (data t') = length (data t)
           \<and> (\<forall>i < length (data t).
                 (channel_of (shape t) i = 0 \<longrightarrow>
                    data t' ! i = (data t ! i - (- 376 / 100)) / (1005 / 100))
               \<and> (channel_of (shape t) i = 1 \<longrightarrow>
                    data t' ! i = (data t ! i - 0) / 1))))"
proof (intro conjI allI impI)
  fix L assume "techno_data_loader load_pickle batch_size data_dir = Inr L"
  then show "ds_transform (dl_dataset L) = Compose [Normalize [- 376 / 100, 0] [1005 / 100, 1]]"
    by (rule techno_transform(1))
next
  fix t :: tensor assume "3 \<le> length (shape t) \<and> shape t ! (length (shape t) - 3) = 2"
  then have a: "3 \<le> length (shape t)" "shape t ! (length (shape t) - 3) = 2" by simp_all
  from normalize_two_channels [OF a] obtain t' where
    t': "apply_transform (Compose [Normalize [- 376 / 100, 0] [1005 / 100, 1]]) t = Inr t'"
      "shape t' = shape t" "length (data t') = length (data t)"
      "\<forall>i < length (data t).
          data t' ! i = (if channel_of (shape t) i = 0
                         then (data t ! i - (- 376 / 100)) / (1005 / 100)
                         else (data t ! i - 0) / 1)"
    by blast
  from t'(4) have "\<forall>i < length (data t).
                 (channel_of (shape t) i = 0 \<longrightarrow>
                    data t' ! i = (data t ! i - (- 376 / 100)) / (1005 / 100))
               \<and> (channel_of (shape t) i = 1 \<longrightarrow>
                    data t' ! i = (data t ! i - 0) / 1)"
    by simp
  with t'(1-3) show "\<exists>t'. apply_transform (Compose [Normalize [- 376 / 100, 0] [1005 / 100, 1]]) t = Inr t'
           \<and> shape t' = shape t \<and> length (data t') = length (data t)
           \<and> (\<forall>i < length (data t).
                 (channel_of (shape t) i = 0 \<longrightarrow>
                    data t' ! i = (data t ! i - (- 376 / 100)) / (1005 / 100))
               \<and> (channel_of (shape t) i = 1 \<longrightarrow>
                    data t' ! i = (data t ! i - 0) / 1))"
    by blast
qed

theorem normalization_fixed_witness:
  "techno_data_loader (pickle_at ''techno.pkl'' [example_image]) 2 ''techno.pkl'' =
     Inr \<lparr>dl_dataset = \<lparr>ds_tensors = [example_image],
            ds_transform = Compose [Normalize [- 376 / 100, 0] [1005 / 100, 1]]\<rparr>,
          dl_batch_size = 2, dl_shuffle = True\<rparr>
   \<and> 3 \<le> length (shape example_image)
   \<and> shape example_image ! (length (shape example_image) - 3) = 2
   \<and> (\<exists>t'. apply_transform (Compose [Normalize [- 376 / 100, 0] [1005 / 100, 1]])
              example_image = Inr t'
          \<and> data t' ! 0 = (0 - (- 376 / 100)) / (1005 / 100)
          \<and> data t' ! 2 = (2 - 0) / 1)"
proof -
  note th = normalization_fixed [of "pickle_at ''techno.pkl'' [example_image]" 2 "''techno.pkl''"]
  have b: "3 \<le> length (shape example_image)
      \<and> shape example_image ! (length (shape example_image) - 3) = 2"
    by (simp add: example_image_def)
  from th b obtain t' where
    t': "apply_transform (Compose [Normalize [- 376 / 100, 0] [1005 / 100, 1]]) example_image
           = Inr t'"
    and el: "\<forall>i < length (data example_image).
                 (channel_of (shape example_image) i = 0 \<longrightarrow>
                    data t' ! i = (data example_image ! i - (- 376 / 100)) / (1005 / 100))
               \<and> (channel_of (shape example_image) i = 1 \<longrightarrow>
                    data t' ! i = (data example_image ! i - 0) / 1)"
    by blast
  have c0: "0 < length (data example_image)" "channel_of (shape example_image) 0 = 0"
    "data example_image ! 0 = 0"
    by (simp_all add: example_image_def channel_of_def)
  have c2: "2 < length (data example_image)" "channel_of (shape example_image) 2 = 1"
    "data example_image ! 2 = 2"
    by (simp_all add: example_image_def channel_of_def)
  from el c0 have e0: "data t' ! 0 = (0 - (- 376 / 100)) / (1005 / 100)" by metis
  from el c2 have e2: "data t' ! 2 = (2 - 0) / 1" by metis
  from example_loader b t' e0 e2 show ?thesis by blast
qed




text \<open>
  Claim C4. \<open>make_disc_block(input_channels, output_channels, kernel_size, stride)\<close>
  is the sequence of a convolution from \<open>input_channels\<close> to \<open>output_channels\<close> with that
  kernel size and stride, a batch normalization over \<open>output_channels\<close> features and a
  LeakyReLU of negative slope 0.2, and calling it applies the three in this order.
\<close>

theorem disc_block_layers:
  "make_disc_block input_channels output_channels (Some kernel_size) (Some stride) =
     Sequential [Conv2d input_channels output_channels kernel_size stride 0,
                 BatchNorm2d output_channels,
                 LeakyReLU (2 / 10) True]
   \<and> run K tr p (make_disc_block input_channels output_channels (Some kernel_size) (Some stride)) x =
       bind_r (apply_layer K tr (p @ [0])
                 (Conv2d input_channels output_channels kernel_size stride 0) x) (\<lambda>a.
       bind_r (apply_layer K tr (p @ [1]) (BatchNorm2d output_channels) a) (\<lambda>b.
         apply_layer K tr (p @ [2]) (LeakyReLU (2 / 10) True) b))"
  by (simp add: make_disc_block_def nn_Conv2d_def bind_r_def numeral_2_eq_2 split: sum.splits)

text \<open>
  Claim C5. The model of \<open>Discriminator(img_chan, hidden_dim)\<close> is the sequence of a
  block from \<open>img_chan\<close> to \<open>hidden_dim\<close> channels, a block from \<open>hidden_dim\<close> to
  \<open>hidden_dim * 2\<close> channels and a convolution from \<open>hidden_dim * 2\<close> channels to 1
  channel; each of its three convolutions has kernel size 4 and stride 2, and calling the
  model applies the three parts in this order.
\<close>

theorem discriminator_model_layers:
  "model (Discriminator (Some img_chan) (Some hidden_dim)) =
     Sequential [make_disc_block img_chan hidden_dim (Some 4) (Some 2),
                 make_disc_block hidden_dim (hidden_dim * 2) (Some 4) (Some 2),
                 Conv2d (hidden_dim * 2) 1 4 2 0]
   \<and> convs (model (Discriminator (Some img_chan) (Some hidden_dim))) =
       [Conv2d img_chan hidden_dim 4 2 0,
        Conv2d hidden_dim (hidden_dim * 2) 4 2 0,
        Conv2d (hidden_dim * 2) 1 4 2 0]
   \<and> map (\<lambda>l. (conv_kernel l, conv_stride l))
         (convs (model (Discriminator (Some img_chan) (Some hidden_dim)))) =
       [(4, 2), (4, 2), (4, 2)]
   \<and> run K tr [] (model (Discriminator (Some img_chan) (Some hidden_dim))) x =
       bind_r (run K tr [0] (make_disc_block img_chan hidden_dim (Some 4) (Some 2)) x) (\<lambda>y.
       bind_r (run K tr [1] (make_disc_block hidden_dim (hidden_dim * 2) (Some 4) (Some 2)) y)
         (\<lambda>z. run K tr [2] (Conv2d (hidden_dim * 2) 1 4 2 0) z))"
proof (intro conjI)
  show m: "model (Discriminator (Some img_chan) (Some hidden_dim)) =
     Sequential [make_disc_block img_chan hidden_dim (Some 4) (Some 2),
                 make_disc_block hidden_dim (hidden_dim * 2) (Some 4) (Some 2),
                 Conv2d (hidden_dim * 2) 1 4 2 0]"
    by (simp add: Discriminator_def nn_Conv2d_def)
  show c: "convs (model (Discriminator (Some img_chan) (Some hidden_dim))) =
       [Conv2d img_chan hidden_dim 4 2 0,
        Conv2d hidden_dim (hidden_dim * 2) 4 2 0,
        Conv2d (hidden_dim * 2) 1 4 2 0]"
    unfolding m by (simp add: make_disc_block_def nn_Conv2d_def)
  show "map (\<lambda>l. (conv_kernel l, conv_stride l))
         (convs (model (Discriminator (Some img_chan) (Some hidden_dim)))) =
       [(4, 2), (4, 2), (4, 2)]"
    unfolding c by simp
  have pos: "[Suc 0] = [1]" "[Suc (Suc 0)] = [2]"
    by simp_all
  show "run K tr [] (model (Discriminator (Some img_chan) (Some hidden_dim))) x =
       bind_r (run K tr [0] (make_disc_block img_chan hidden_dim (Some 4) (Some 2)) x) (\<lambda>y.
       bind_r (run K tr [1] (make_disc_block hidden_dim (hidden_dim * 2) (Some 4) (Some 2)) y)
         (\<lambda>z. run K tr [2] (Conv2d (hidden_dim * 2) 1 4 2 0) z))"
    unfolding m run.simps pos [symmetric] bind_r_def
    by (simp split: sum.splits)
qed

text \<open>
  Claim C6. The result of \<open>techno_data_loader\<close> depends on the file system only through
  what \<open>load_pickle\<close> gives at \<open>data_dir\<close>; the dataset of a returned loader holds the
  tensors that \<open>load_pickle\<close> returned there, and the normalization; and where
  \<open>load_pickle\<close> returns at least one tensor and \<open>batch_size\<close> is positive, a loader over
  exactly those tensors is returned.
\<close>

theorem loader_reads_pickle_only:
  "(\<forall>other. other data_dir = load_pickle data_dir \<longrightarrow>
       techno_data_loader other batch_size data_dir =
       techno_data_loader load_pickle batch_size data_dir)
   \<and> (\<forall>L. techno_data_loader load_pickle batch_size data_dir = Inr L \<longrightarrow>
         load_pickle data_dir = Inr (ds_tensors (dl_dataset L))
       \<and> dl_dataset L = TechnoDatasetSpectrogram (ds_tensors (dl_dataset L))
                          (Compose [Normalize [- 376 / 100, 0] [1005 / 100, 1]]))
   \<and> (\<forall>tensors. load_pickle data_dir = Inr tensors \<and> tensors \<noteq> [] \<and> 0 < batch_size \<longrightarrow>
         (\<exists>L. techno_data_loader load_pickle batch_size data_dir = Inr L
            \<and> dl_dataset L = TechnoDatasetSpectrogram tensors
                               (Compose [Normalize [- 376 / 100, 0] [1005 / 100, 1]])))"
proof (intro conjI allI impI)
  fix other :: "string \<Rightarrow> error + tensor list"
  assume "other data_dir = load_pickle data_dir"
  then show "techno_data_loader other batch_size data_dir =
       techno_data_loader load_pickle batch_size data_dir"
    by (simp add: techno_data_loader_def)
next
  fix L assume L: "techno_data_loader load_pickle batch_size data_dir = Inr L"
  show "load_pickle data_dir = Inr (ds_tensors (dl_dataset L))"
    using L by (rule techno_transform(2))
  show "dl_dataset L = TechnoDatasetSpectrogram (ds_tensors (dl_dataset L))
                          (Compose [Normalize [- 376 / 100, 0] [1005 / 100, 1]])"
    using techno_transform(1) [OF L] by (simp add: TechnoDatasetSpectrogram_def)
next
  fix tensors
  assume "load_pickle data_dir = Inr tensors \<and> tensors \<noteq> [] \<and> 0 < batch_size"
  then show "\<exists>L. techno_data_loader load_pickle batch_size data_dir = Inr L
            \<and> dl_dataset L = TechnoDatasetSpectrogram tensors
                               (Compose [Normalize [- 376 / 100, 0] [1005 / 100, 1]])"
    using techno_returns [of load_pickle data_dir tensors batch_size]
    by (simp add: TechnoDatasetSpectrogram_def)
qed

theorem loader_reads_pickle_only_witness:
  "(\<lambda>path. Inr [example_image]) ''techno.pkl''
     = pickle_at ''techno.pkl'' [example_image] ''techno.pkl''
   \<and> techno_data_loader (\<lambda>path. Inr [example_image]) 2 ''techno.pkl''
     = techno_data_loader (pickle_at ''techno.pkl'' [example_image]) 2 ''techno.pkl''
   \<and> pickle_at ''techno.pkl'' [example_image] ''techno.pkl'' = Inr [example_image]
   \<and> [example_image] \<noteq> [] \<and> (0::int) < 2
   \<and> (\<exists>L. techno_data_loader (pickle_at ''techno.pkl'' [example_image]) 2 ''techno.pkl''
            = Inr L
          \<and> pickle_at ''techno.pkl'' [example_image] ''techno.pkl''
            = Inr (ds_tensors (dl_dataset L))
          \<and> dl_dataset L = TechnoDatasetSpectrogram [example_image]
                             (Compose [Normalize [- 376 / 100, 0] [1005 / 100, 1]]))"
proof -
  note th = loader_reads_pickle_only
    [of "''techno.pkl''" "pickle_at ''techno.pkl'' [example_image]" 2]
  have a: "(\<lambda>path. Inr [example_image]) ''techno.pkl''
     = pickle_at ''techno.pkl'' [example_image] ''techno.pkl''"
    by (simp add: pickle_at_def)
  have b: "pickle_at ''techno.pkl'' [example_image] ''techno.pkl'' = Inr [example_image]"
    by (simp add: pickle_at_def)
  from th [THEN conjunct1, rule_format, of "\<lambda>path. Inr [example_image]"] a
  have c: "techno_data_loader (\<lambda>path. Inr [example_image]) 2 ''techno.pkl''
     = techno_data_loader (pickle_at ''techno.pkl'' [example_image]) 2 ''techno.pkl''"
    by simp
  from th [THEN conjunct2, THEN conjunct2, rule_format, of "[example_image]"] b
  obtain L where
    L: "techno_data_loader (pickle_at ''techno.pkl'' [example_image]) 2 ''techno.pkl'' = Inr L"
    and d: "dl_dataset L = TechnoDatasetSpectrogram [example_image]
                             (Compose [Normalize [- 376 / 100, 0] [1005 / 100, 1]])"
    by auto
  from th L have "pickle_at ''techno.pkl'' [example_image] ''techno.pkl''
            = Inr (ds_tensors (dl_dataset L))"
    by blast
  with a b c L d show ?thesis by auto
qed



text \<open>
  Claim C8, as the code has it. With the default construction, in training mode and in
  evaluation mode, \<open>forward\<close> returns only on a 4-dimensional input with one channel whose
  height and width are at least 22. Each of the three convolutions has kernel size 4,
  stride 2 and no padding, so that it maps a spatial size \<open>H\<close> to \<open>(H - 4) div 2 + 1\<close> and
  raises below 4. On a batch of \<open>N\<close> images of height and width 22, \<open>N\<close> at least 1, the
  model gives one number for each image and \<open>forward\<close> returns a tensor of shape
  \<open>(N, 1)\<close>.
\<close>

theorem default_forward_needs_22:
  "(\<forall>K tr x out. forward K ((Discriminator None None)\<lparr>training := tr\<rparr>) x = Inr out \<longrightarrow>
       (\<exists>n h w. shape x = [n, 1, h, w] \<and> 22 \<le> h \<and> 22 \<le> w))
   \<and> convs (model (Discriminator None None)) =
       [Conv2d 1 16 4 2 0, Conv2d 16 32 4 2 0, Conv2d 32 1 4 2 0]
   \<and> map (\<lambda>l. (conv_kernel l, conv_stride l, conv_padding l))
         (convs (model (Discriminator None None))) = [(4, 2, 0), (4, 2, 0), (4, 2, 0)]
   \<and> (\<forall>tr n h w.
         out_shape tr (Conv2d 1 16 4 2 0) [n, 1, h, w] =
           (if 4 \<le> h \<and> 4 \<le> w then Inr [n, 16, (h - 4) div 2 + 1, (w - 4) div 2 + 1]
            else Inl RuntimeError)
       \<and> out_shape tr (Conv2d 16 32 4 2 0) [n, 16, h, w] =
           (if 4 \<le> h \<and> 4 \<le> w then Inr [n, 32, (h - 4) div 2 + 1, (w - 4) div 2 + 1]
            else Inl RuntimeError)
       \<and> out_shape tr (Conv2d 32 1 4 2 0) [n, 32, h, w] =
           (if 4 \<le> h \<and> 4 \<le> w then Inr [n, 1, (h - 4) div 2 + 1, (w - 4) div 2 + 1]
            else Inl RuntimeError))
   \<and> (\<forall>K tr x N. shape x = [N, 1, 22, 22] \<and> 0 < N \<longrightarrow>
         (\<exists>p out. run K tr [] (model (Discriminator None None)) x = Inr p
            \<and> shape p = [N, 1, 1, 1]
            \<and> forward K ((Discriminator None None)\<lparr>training := tr\<rparr>) x = Inr out
            \<and> shape out = [N, 1]))"
proof (intro conjI allI impI)
  fix K :: kernels and tr and x :: tensor and out
  assume "forward K ((Discriminator None None)\<lparr>training := tr\<rparr>) x = Inr out"
  then obtain p where "run K tr [] (model (Discriminator None None)) x = Inr p"
    using forward_Inr [of K "(Discriminator None None)\<lparr>training := tr\<rparr>" x out] by auto
  then have "run K tr [] (model (Discriminator (Some 1) (Some 16))) x = Inr p"
    by (simp add: default_args)
  from model_shape [OF this]
  show "\<exists>n h w. shape x = [n, 1, h, w] \<and> 22 \<le> h \<and> 22 \<le> w" by auto
next
  show c: "convs (model (Discriminator None None)) =
       [Conv2d 1 16 4 2 0, Conv2d 16 32 4 2 0, Conv2d 32 1 4 2 0]"
    by (simp add: Discriminator_def make_disc_block_def nn_Conv2d_def)
  show "map (\<lambda>l. (conv_kernel l, conv_stride l, conv_padding l))
         (convs (model (Discriminator None None))) = [(4, 2, 0), (4, 2, 0), (4, 2, 0)]"
    unfolding c by simp
next
  fix tr n h w
  show "out_shape tr (Conv2d 1 16 4 2 0) [n, 1, h, w] =
           (if 4 \<le> h \<and> 4 \<le> w then Inr [n, 16, (h - 4) div 2 + 1, (w - 4) div 2 + 1]
            else Inl RuntimeError)"
    by (rule conv_shape_4_2_eq) simp_all
  show "out_shape tr (Conv2d 16 32 4 2 0) [n, 16, h, w] =
           (if 4 \<le> h \<and> 4 \<le> w then Inr [n, 32, (h - 4) div 2 + 1, (w - 4) div 2 + 1]
            else Inl RuntimeError)"
    by (rule conv_shape_4_2_eq) simp_all
  show "out_shape tr (Conv2d 32 1 4 2 0) [n, 32, h, w] =
           (if 4 \<le> h \<and> 4 \<le> w then Inr [n, 1, (h - 4) div 2 + 1, (w - 4) div 2 + 1]
            else Inl RuntimeError)"
    by (rule conv_shape_4_2_eq) simp_all
next
  fix K :: kernels and tr and x :: tensor and N
  assume a: "shape x = [N, 1, 22, 22] \<and> 0 < N"
  then have sx: "shape x = [N, 1, 22, 22]" and N: "0 < N" by simp_all
  from run_22 [OF sx] obtain p where
    p: "run K tr [] (model (Discriminator None None)) x = Inr p" and
    sp: "shape p = [N, 1, 1, 1]" by blast
  have "forward K ((Discriminator None None)\<lparr>training := tr\<rparr>) x =
      Inr \<lparr>shape = [N, prod_list [1, 1, 1]], data = data p\<rparr>"
    using p sp N view_rows [of p N "[1, 1, 1]"]
    by (simp add: forward_def len_t_def)
  with p sp show "\<exists>p out. run K tr [] (model (Discriminator None None)) x = Inr p
            \<and> shape p = [N, 1, 1, 1]
            \<and> forward K ((Discriminator None None)\<lparr>training := tr\<rparr>) x = Inr out
            \<and> shape out = [N, 1]"
    by simp
qed

theorem default_forward_needs_22_witness:
  "forward zero_kernels ((Discriminator None None)\<lparr>training := True\<rparr>)
      \<lparr>shape = [2, 1, 22, 22], data = replicate 968 0\<rparr>
     = Inr \<lparr>shape = [2, 1], data = [0, 0]\<rparr>
   \<and> (\<exists>n h w. shape \<lparr>shape = [2, 1, 22, 22], data = replicate 968 0\<rparr> = [n, 1, h, w]
          \<and> 22 \<le> h \<and> 22 \<le> w)
   \<and> shape \<lparr>shape = [2, 1, 22, 22], data = replicate 968 0\<rparr> = [2, 1, 22, 22]
   \<and> (0::nat) < 2
   \<and> (\<exists>p out. run zero_kernels True [] (model (Discriminator None None))
                \<lparr>shape = [2, 1, 22, 22], data = replicate 968 0\<rparr> = Inr p
          \<and> shape p = [2, 1, 1, 1]
          \<and> forward zero_kernels ((Discriminator None None)\<lparr>training := True\<rparr>)
                \<lparr>shape = [2, 1, 22, 22], data = replicate 968 0\<rparr> = Inr out
          \<and> shape out = [2, 1])"
proof -
  let ?x = "\<lparr>shape = [2, 1, 22, 22], data = replicate 968 0\<rparr>"
  let ?D = "(Discriminator None None)\<lparr>training := True\<rparr>"
  note th = default_forward_needs_22
  have f: "forward zero_kernels ?D ?x = Inr \<lparr>shape = [2, 1], data = [0, 0]\<rparr>"
    unfolding default_mode by (rule example_forward)
  from th [THEN conjunct1, rule_format, OF f]
  have a: "\<exists>n h w. shape ?x = [n, 1, h, w] \<and> 22 \<le> h \<and> 22 \<le> w" .
  have b: "shape ?x = [2, 1, 22, 22] \<and> (0::nat) < 2" by simp
  from th [THEN conjunct2, THEN conjunct2, THEN conjunct2, THEN conjunct2, rule_format,
      of ?x 2 zero_kernels True, OF b]
  have c: "\<exists>p out. run zero_kernels True [] (model (Discriminator None None)) ?x = Inr p
          \<and> shape p = [2, 1, 1, 1]
          \<and> forward zero_kernels ?D ?x = Inr out
          \<and> shape out = [2, 1]" .
  from f a b c show ?thesis by blast
qed

text \<open>
  The claim as stated, for a batch of any number \<open>N\<close> of such images, fails at \<open>N = 0\<close>:
  on the shape \<open>(0, 1, 22, 22)\<close> the model returns \<open>(0, 1, 1, 1)\<close> and \<open>forward\<close> raises
  in either mode, where the claim has it return a tensor of shape \<open>(0, 1)\<close>.
\<close>

theorem default_forward_no_images_counterexample:
  "shape \<lparr>shape = [0, 1, 22, 22], data = []\<rparr> = [0, 1, 22, 22]
   \<and> forward zero_kernels ((Discriminator None None)\<lparr>training := True\<rparr>)
       \<lparr>shape = [0, 1, 22, 22], data = []\<rparr> = Inl RuntimeError
   \<and> forward zero_kernels ((Discriminator None None)\<lparr>training := False\<rparr>)
       \<lparr>shape = [0, 1, 22, 22], data = []\<rparr> = Inl RuntimeError"
  by (simp add: forward_def len_t_def view_def numel_def Discriminator_def make_disc_block_def
      nn_Conv2d_def apply_layer_def conv_out_def zero_kernels_def)

text \<open>
  Claim C9. The normalization of a returned loader leaves every element of the second
  channel of a two-channel image as it is: an element it changes is in the first channel.
\<close>

theorem second_channel_unchanged:
  assumes "techno_data_loader load_pickle batch_size data_dir = Inr L"
    and "3 \<le> length (shape t)" and "shape t ! (length (shape t) - 3) = 2"
  shows "\<exists>t'. apply_transform (ds_transform (dl_dataset L)) t = Inr t'
    \<and> shape t' = shape t \<and> length (data t') = length (data t)
    \<and> (\<forall>i < length (data t). channel_of (shape t) i = 1 \<longrightarrow> data t' ! i = data t ! i)
    \<and> (\<forall>i < length (data t). data t' ! i \<noteq> data t ! i \<longrightarrow> channel_of (shape t) i = 0)"
proof -
  from normalize_two_channels [OF assms(2,3)] obtain t' where
    t': "apply_transform (Compose [Normalize [- 376 / 100, 0] [1005 / 100, 1]]) t = Inr t'"
      "shape t' = shape t" "length (data t') = length (data t)"
    and el: "\<forall>i < length (data t).
          data t' ! i = (if channel_of (shape t) i = 0
                         then (data t ! i - (- 376 / 100)) / (1005 / 100)
                         else (data t ! i - 0) / 1)"
    by blast
  from el have same: "\<forall>i < length (data t). channel_of (shape t) i \<noteq> 0 \<longrightarrow> data t' ! i = data t ! i"
    by simp
  then have "\<forall>i < length (data t). channel_of (shape t) i = 1 \<longrightarrow> data t' ! i = data t ! i"
    by simp
  moreover from same have
    "\<forall>i < length (data t). data t' ! i \<noteq> data t ! i \<longrightarrow> channel_of (shape t) i = 0"
    by blast
  ultimately show ?thesis
    using t' techno_transform(1) [OF assms(1)] by auto
qed

theorem second_channel_unchanged_witness:
  "techno_data_loader (pickle_at ''techno.pkl'' [example_image]) 2 ''techno.pkl'' =
     Inr \<lparr>dl_dataset = \<lparr>ds_tensors = [example_image],
            ds_transform = Compose [Normalize [- 376 / 100, 0] [1005 / 100, 1]]\<rparr>,
          dl_batch_size = 2, dl_shuffle = True\<rparr>
   \<and> 3 \<le> length (shape example_image)
   \<and> shape example_image ! (length (shape example_image) - 3) = 2
   \<and> (\<exists>t'. apply_transform (Compose [Normalize [- 376 / 100, 0] [1005 / 100, 1]])
              example_image = Inr t'
          \<and> data t' ! 2 = 2 \<and> data t' ! 3 = 3)"
proof -
  have b: "3 \<le> length (shape example_image)"
      "shape example_image ! (length (shape example_image) - 3) = 2"
    by (simp_all add: example_image_def)
  from second_channel_unchanged [OF example_loader b] obtain t' where
    t': "apply_transform (Compose [Normalize [- 376 / 100, 0] [1005 / 100, 1]]) example_image
           = Inr t'"
    and el: "\<forall>i < length (data example_image).
               channel_of (shape example_image) i = 1 \<longrightarrow> data t' ! i = data example_image ! i"
    by auto
  have c2: "2 < length (data example_image)" "channel_of (shape example_image) 2 = 1"
    "data example_image ! 2 = 2"
    by (simp_all add: example_image_def channel_of_def)
  have c3: "3 < length (data example_image)" "channel_of (shape example_image) 3 = 1"
    "data example_image ! 3 = 3"
    by (simp_all add: example_image_def channel_of_def)
  from el c2 have e2: "data t' ! 2 = 2" by metis
  from el c3 have e3: "data t' ! 3 = 3" by metis
  from example_loader b t' e2 e3 show ?thesis by blast
qed

text \<open>
  Claim C10. An argument left out of \<open>Discriminator(...)\<close> takes its default, 1 for
  \<open>img_chan\<close> and 16 for \<open>hidden_dim\<close>, so \<open>Discriminator()\<close> is
  \<open>Discriminator(1, 16)\<close>: its three convolutions go from 1 to 16, from 16 to 32 and from
  32 to 1 channels.
\<close>

theorem discriminator_defaults:
  "Discriminator None None = Discriminator (Some 1) (Some 16)
   \<and> Discriminator None (Some hidden_dim) = Discriminator (Some 1) (Some hidden_dim)
   \<and> Discriminator (Some img_chan) None = Discriminator (Some img_chan) (Some 16)
   \<and> map (\<lambda>l. (conv_in l, conv_out_channels l)) (convs (model (Discriminator None None))) =
       [(1, 16), (16, 32), (32, 1)]"
proof (intro conjI)
  show d: "Discriminator None None = Discriminator (Some 1) (Some 16)"
    by (simp add: Discriminator_def)
  show "Discriminator None (Some hidden_dim) = Discriminator (Some 1) (Some hidden_dim)"
    by (simp add: Discriminator_def)
  show "Discriminator (Some img_chan) None = Discriminator (Some img_chan) (Some 16)"
    by (simp add: Discriminator_def)
  have "convs (model (Discriminator (Some 1) (Some 16))) =
      [Conv2d 1 16 4 2 0, Conv2d 16 32 4 2 0, Conv2d 32 1 4 2 0]"
    by (simp add: Discriminator_def make_disc_block_def nn_Conv2d_def)
  then show "map (\<lambda>l. (conv_in l, conv_out_channels l))
      (convs (model (Discriminator None None))) = [(1, 16), (16, 32), (32, 1)]"
    unfolding d by simp
qed

end
